theory Spec2Isabelle
  imports Complex_Main
begin

section \<open>Synthetic maintenance data generator: the simulation core\<close>

text \<open>
  A shallow embedding of \<^verbatim>\<open>src/maintenance_app/synthetic_maintenance_data.py\<close>.

  Conventions of the embedding:
  \<^item> Python floats are modelled as \<^typ>\<open>real\<close> and decimal literals as the exact
    rationals they denote; Python ints are \<^typ>\<open>int\<close>.
  \<^item> Every call of a random generator (\<^verbatim>\<open>np.random.uniform\<close>, \<^verbatim>\<open>np.random.normal\<close>,
    \<^verbatim>\<open>random.random\<close>, \<^verbatim>\<open>random.uniform\<close>) is modelled by a field of a record of draws
    that holds the value the call returns should it be executed. The functions take the
    draws as an extra argument; where a property depends on the range of a distribution
    the range is a hypothesis on the draw.
  \<^item> Mutation of a machine object is explicit state passing: a method returns the
    updated machine.
\<close>

subsection \<open>Configuration\<close>

record config =
  NUM_MACHINES :: int
  DAYS_PER_CYCLE :: int
  NUM_CYCLES :: int

definition default_config :: config where
  "default_config = \<lparr>NUM_MACHINES = 10, DAYS_PER_CYCLE = 180, NUM_CYCLES = 10\<rparr>"

subsection \<open>Rounding\<close>

text \<open>
  Python's \<^verbatim>\<open>round(x, n)\<close> rounds to \<open>n\<close> decimals, ties to even.
\<close>

definition round_half_even :: "real \<Rightarrow> int" where
  "round_half_even x =
     (let f = \<lfloor>x\<rfloor>; r = x - of_int f
      in if r < 1 / 2 then f
         else if 1 / 2 < r then f + 1
         else if even f then f else f + 1)"

definition py_round :: "real \<Rightarrow> nat \<Rightarrow> real" where
  "py_round x n = of_int (round_half_even (x * 10 ^ n)) / 10 ^ n"

subsection \<open>Machine state\<close>

text \<open>
  The attributes of \<^verbatim>\<open>MachineBehavior\<close>. The attribute \<^verbatim>\<open>intermittent_fault_active\<close> is
  not set by \<^verbatim>\<open>__init__\<close>; the code tests for it with \<^verbatim>\<open>hasattr\<close>, so the field is an
  option and \<open>None\<close> stands for the missing attribute.
\<close>

record machine =
  machine_id :: int
  age :: real
  quality :: real
  wear_resistance :: real
  bearing_wear :: real
  motor_degradation :: real
  thermal_stress :: real
  lubrication_quality :: real
  base_temp :: real
  base_vib :: real
  base_rpm :: real
  cycles_since_service :: int
  total_operating_hours :: int
  stress_accumulation :: real
  maintenance_quality :: real
  previous_failures :: int
  last_maintenance_effectiveness :: real
  intermittent_fault_active :: "bool option"

text \<open>The seven \<^verbatim>\<open>np.random.uniform\<close> draws of \<^verbatim>\<open>__init__\<close>, in the order of the calls.\<close>

record init_draws =
  age_draw :: real
  quality_draw :: real
  wear_resistance_draw :: real
  base_temp_draw :: real
  base_vib_draw :: real
  base_rpm_draw :: real
  maintenance_quality_draw :: real

definition MachineBehavior :: "int \<Rightarrow> init_draws \<Rightarrow> machine" where
  "MachineBehavior mid d =
     \<lparr>machine_id = mid,
      age = age_draw d,
      quality = quality_draw d,
      wear_resistance = wear_resistance_draw d,
      bearing_wear = 0.0,
      motor_degradation = 0.0,
      thermal_stress = 0.0,
      lubrication_quality = 1.0,
      base_temp = base_temp_draw d,
      base_vib = base_vib_draw d,
      base_rpm = base_rpm_draw d,
      cycles_since_service = 0,
      total_operating_hours = 0,
      stress_accumulation = 0.0,
      maintenance_quality = maintenance_quality_draw d,
      previous_failures = 0,
      last_maintenance_effectiveness = 1.0,
      intermittent_fault_active = None\<rparr>"

text \<open>The ranges the constructor draws from.\<close>

definition init_draws_ok :: "init_draws \<Rightarrow> bool" where
  "init_draws_ok d \<longleftrightarrow>
     0.1 \<le> age_draw d \<and> age_draw d \<le> 8.0 \<and>
     0.7 \<le> quality_draw d \<and> quality_draw d \<le> 1.0 \<and>
     0.5 \<le> wear_resistance_draw d \<and> wear_resistance_draw d \<le> 1.5 \<and>
     58 \<le> base_temp_draw d \<and> base_temp_draw d \<le> 68 \<and>
     0.04 \<le> base_vib_draw d \<and> base_vib_draw d \<le> 0.12 \<and>
     1420 \<le> base_rpm_draw d \<and> base_rpm_draw d \<le> 1480 \<and>
     0.7 \<le> maintenance_quality_draw d \<and> maintenance_quality_draw d \<le> 1.0"

subsection \<open>Load pattern\<close>

text \<open>
  The draws of \<^verbatim>\<open>generate_load_pattern\<close>: the weekend and weekday base loads
  (\<^verbatim>\<open>normal(50, 5)\<close>, \<^verbatim>\<open>normal(68, 8)\<close>), the monthly surge and wind-down amounts
  (\<^verbatim>\<open>uniform(10, 20)\<close>, \<^verbatim>\<open>uniform(5, 15)\<close>), and for the anomalies the two
  \<^verbatim>\<open>random.random()\<close> tests with their amounts (\<^verbatim>\<open>uniform(15, 30)\<close>, \<^verbatim>\<open>uniform(10, 25)\<close>).
\<close>

record load_draws =
  weekend_load :: real
  weekday_load :: real
  month_surge :: real
  month_dip :: real
  surge_p :: real
  surge_amt :: real
  dip_p :: real
  dip_amt :: real

definition generate_load_pattern :: "machine \<Rightarrow> int \<Rightarrow> int \<Rightarrow> load_draws \<Rightarrow> real" where
  "generate_load_pattern self day cycle_day d =
     (let day_of_week = day mod 7;
          day_of_year = day mod 365;
          seasonal_factor = 1.0 + 0.1 * sin (2 * pi * real_of_int day_of_year / 365);
          base_load = (if day_of_week \<in> set [5, 6] then weekend_load d else weekday_load d);
          base_load = (if day mod 30 < 5 then base_load + month_surge d
                       else if day mod 30 > 25 then base_load - month_dip d
                       else base_load);
          base_load = base_load * seasonal_factor;
          base_load = (if surge_p d < 0.1 then base_load + surge_amt d
                       else if dip_p d < 0.08 then base_load - dip_amt d
                       else base_load)
      in max 35 (min 98 base_load))"

subsection \<open>Sensor readings\<close>

record readings =
  temperature :: real
  vibration :: real
  rpm :: real
  load :: real

text \<open>
  The draws of \<^verbatim>\<open>calculate_sensor_readings\<close>, in the order of the calls: the RPM
  fluctuation \<^verbatim>\<open>normal(0, rpm_stability)\<close>; for the intermittent fault three tests with
  their amounts; the three noise terms; the two glitch tests with their amounts.
\<close>

record sensor_draws =
  rpm_fluctuation :: real
  fault_vib_p :: real
  fault_vib_factor :: real
  fault_temp_p :: real
  fault_temp_add :: real
  fault_rpm_p :: real
  fault_rpm_add :: real
  noise_temp :: real
  noise_vib :: real
  noise_rpm :: real
  glitch_temp_p :: real
  glitch_temp_add :: real
  glitch_vib_p :: real
  glitch_vib_add :: real

text \<open>
  The seasonal temperature effect of \<^verbatim>\<open>calculate_sensor_readings\<close> (the local variables
  \<^verbatim>\<open>day_of_year\<close> and \<^verbatim>\<open>seasonal_temp_effect\<close>), as a function of the method's
  argument \<^verbatim>\<open>day_in_cycle\<close>.
\<close>

definition seasonal_temp_effect :: "int \<Rightarrow> real" where
  "seasonal_temp_effect day_in_cycle =
     (let day_of_year = day_in_cycle mod 365
      in 3 * sin (2 * pi * real_of_int day_of_year / 365))"

definition calculate_sensor_readings :: "machine \<Rightarrow> int \<Rightarrow> real \<Rightarrow> sensor_draws \<Rightarrow> readings" where
  "calculate_sensor_readings self day_in_cycle current_load d =
     (let load_factor = current_load / 100.0;
          seasonal_temp_effect = seasonal_temp_effect day_in_cycle;
          temp_load_effect = load_factor * 8;
          temp_load_effect = (if load_factor > 0.75
                              then temp_load_effect + (load_factor - 0.75) * 15
                              else temp_load_effect);
          temperature = base_temp self + temp_load_effect +
                        bearing_wear self * 3 +
                        (1 - lubrication_quality self) * 8 +
                        seasonal_temp_effect;
          vibration = base_vib self +
                      load_factor * 0.05 +
                      bearing_wear self * 0.15 +
                      motor_degradation self * 0.1;
          rpm_stability = 2 + motor_degradation self * 5 + bearing_wear self * 4;
          rpm = base_rpm self + rpm_fluctuation d;
          rpm = (if current_load > 80 \<and> (motor_degradation self > 0.3 \<or> bearing_wear self > 0.4)
                 then rpm - (current_load - 80) * 0.4 else rpm);
          fault = (intermittent_fault_active self = Some True);
          vibration = (if fault \<and> fault_vib_p d < 0.6
                       then vibration * fault_vib_factor d else vibration);
          temperature = (if fault \<and> fault_temp_p d < 0.4
                         then temperature + fault_temp_add d else temperature);
          rpm = (if fault \<and> fault_rpm_p d < 0.3 then rpm + fault_rpm_add d else rpm);
          temperature = temperature + noise_temp d;
          vibration = vibration + noise_vib d;
          rpm = rpm + noise_rpm d;
          temperature = (if glitch_temp_p d < 0.008
                         then temperature + glitch_temp_add d else temperature);
          vibration = (if glitch_vib_p d < 0.006
                       then vibration + glitch_vib_add d else vibration)
      in \<lparr>temperature = max 40 (min 95 (py_round temperature 2)),
          vibration = max 0.02 (min 0.5 (py_round vibration 4)),
          rpm = max 1380 (py_round rpm 1),
          load = py_round current_load 1\<rparr>)"

subsection \<open>Degradation\<close>

definition update_degradation :: "machine \<Rightarrow> readings \<Rightarrow> int \<Rightarrow> machine" where
  "update_degradation self sensor_readings day_in_cycle =
     (let temp = temperature sensor_readings;
          vibration = vibration sensor_readings;
          rpm = rpm sensor_readings;
          load = load sensor_readings;
          age_factor = min 2.0 (1.0 + age self / 10);
          bearing_wear_rate = (vibration * 0.5 + load / 100 * 0.1) * (1 / wear_resistance self);
          rpm_variation = \<bar>rpm - base_rpm self\<bar> / base_rpm self;
          thermal_cycles = max 0 ((temp - 65) / 20);
          lubrication_degradation = (if temp > 75 then 0.998 else 0.9995);
          daily_stress = load / 100 * 0.1 + vibration * 0.5 + max 0 (temp - 65) / 50
      in self\<lparr>bearing_wear := min 1.0 (bearing_wear self + bearing_wear_rate * 0.001 * age_factor),
              motor_degradation :=
                min 1.0 (motor_degradation self + (rpm_variation + thermal_cycles) * 0.0005),
              lubrication_quality := max 0.1 (lubrication_quality self * lubrication_degradation),
              stress_accumulation := stress_accumulation self + daily_stress,
              total_operating_hours := total_operating_hours self + 24\<rparr>)"

subsection \<open>Failure risk\<close>

text \<open>
  The two \<^verbatim>\<open>random.random()\<close> calls of \<^verbatim>\<open>check_failure_risk\<close>: the test that starts an
  intermittent fault and the test for a random component failure.
\<close>

record risk_draws =
  fault_start_p :: real
  random_failure_p :: real

definition check_failure_risk ::
    "machine \<Rightarrow> readings \<Rightarrow> int \<Rightarrow> risk_draws \<Rightarrow> machine \<times> real" where
  "check_failure_risk self sensor_readings day_in_cycle d =
     (let temp = temperature sensor_readings;
          vibration = vibration sensor_readings;
          rpm = rpm sensor_readings;
          load = load sensor_readings;
          age_risk_factor = min 2.0 (1.0 + age self / 15);
          bearing_risk =
            (if vibration > 0.18 \<and> bearing_wear self > 0.5 then 0.6
             else if vibration > 0.25 then 0.8
             else if bearing_wear self > 0.8 then 0.7
             else 0);
          motor_risk =
            (if temp > 78 \<and> rpm > base_rpm self + 20 then 0.5
             else if temp > 82 then 0.7
             else if motor_degradation self > 0.6 \<and> temp > 70 then 0.4
             else 0);
          lubrication_risk =
            (if lubrication_quality self < 0.3 \<and> temp > 70 then 0.5
             else if lubrication_quality self < 0.1 then 0.8
             else 0);
          stress_risk =
            (if stress_accumulation self > 30 \<and> day_in_cycle > 100
             then min 0.6 (stress_accumulation self / 60)
             else 0);
          degradation_score = bearing_wear self + motor_degradation self +
                              (1 - lubrication_quality self);
          combined_risk =
            (if degradation_score > 1.2 \<and> load > 70
             then min 0.9 (degradation_score / 2.0)
             else 0);
          age_risk = (if age self > 5 then min 0.3 ((age self - 5) * 0.06) else 0);
          risks = [bearing_risk, motor_risk, lubrication_risk, stress_risk, combined_risk,
                   age_risk];
          failure_risk = 1 - prod_list (map (\<lambda>r. 1 - r) risks);
          failure_risk = failure_risk * age_risk_factor;
          active = (case intermittent_fault_active self of None \<Rightarrow> False | Some b \<Rightarrow> b);
          active = (if failure_risk > 0.4 \<and> \<not> active \<and> fault_start_p d < 0.3
                    then True else active);
          failure_risk =
            (if temp > 85 \<or> vibration > 0.35 \<or>
                bearing_wear self > 0.95 \<or> lubrication_quality self < 0.05
             then 1.0 else failure_risk);
          failure_risk = (if random_failure_p d < 0.0002 then 1.0 else failure_risk)
      in (self\<lparr>intermittent_fault_active := Some active\<rparr>, min 1.0 failure_risk))"

subsection \<open>Maintenance\<close>

text \<open>
  The argument \<open>workmanship\<close> is the value of \<^verbatim>\<open>random.uniform(0.8, 1.0)\<close>.
\<close>

definition apply_maintenance :: "machine \<Rightarrow> real \<Rightarrow> machine" where
  "apply_maintenance self workmanship =
     (let effectiveness = maintenance_quality self * workmanship
      in self\<lparr>last_maintenance_effectiveness := effectiveness,
              bearing_wear := bearing_wear self * (0.2 + 0.5 * (1 - effectiveness)),
              motor_degradation := motor_degradation self * (0.3 + 0.5 * (1 - effectiveness)),
              lubrication_quality := min 1.0 (lubrication_quality self + 0.6 * effectiveness),
              stress_accumulation := stress_accumulation self * (0.1 + 0.3 * (1 - effectiveness)),
              intermittent_fault_active := Some False\<rparr>)"

subsection \<open>The main data generation loop\<close>

text \<open>
  The draws of one simulated day: those of the three methods called, and the
  \<^verbatim>\<open>random.random()\<close> of the probabilistic failure test of the loop body.
\<close>

record day_draws =
  load_d :: load_draws
  sensor_d :: sensor_draws
  risk_d :: risk_draws
  failure_p :: real

text \<open>
  The draws of a whole run: those of the constructor by machine id, the workmanship of a
  maintenance by cycle and machine id, and those of a day by cycle, machine id and day in
  the cycle.
\<close>

record run_draws =
  init_of :: "int \<Rightarrow> init_draws"
  workmanship_of :: "int \<Rightarrow> int \<Rightarrow> real"
  day_of :: "int \<Rightarrow> int \<Rightarrow> int \<Rightarrow> day_draws"

text \<open>The cycle-level failure tracking variables of the loop.\<close>

record cycle_state =
  failure_occurred :: bool
  consecutive_high_risk_days :: int
  intermittent_fault_days :: int

text \<open>One element of \<^verbatim>\<open>rows\<close>; the keys of the dict, prefixed.\<close>

record row =
  row_machine_id :: int
  row_cycle :: int
  row_day :: int
  row_day_in_cycle :: int
  row_temperature :: real
  row_vibration :: real
  row_rpm :: real
  row_load :: real
  row_service_flag :: int
  row_failure_event :: int

text \<open>The body of the loop over \<^verbatim>\<open>day_in_cycle\<close>.\<close>

definition daily_operation ::
    "config \<Rightarrow> int \<Rightarrow> int \<Rightarrow> day_draws \<Rightarrow> machine \<times> cycle_state
       \<Rightarrow> (machine \<times> cycle_state) \<times> row" where
  "daily_operation cfg cycle day_in_cycle d ms =
     (let machine = fst ms; st = snd ms;
          global_day = (cycle - 1) * DAYS_PER_CYCLE cfg + day_in_cycle;
          current_load = generate_load_pattern machine global_day day_in_cycle (load_d d);
          sensor_readings =
            calculate_sensor_readings machine day_in_cycle current_load (sensor_d d);
          machine = update_degradation machine sensor_readings day_in_cycle;
          checked = check_failure_risk machine sensor_readings day_in_cycle (risk_d d);
          machine = fst checked;
          failure_risk = snd checked;
          consecutive = (if failure_risk > 0.6 then consecutive_high_risk_days st + 1 else 0);
          intermittent = (if intermittent_fault_active machine = Some True
                          then intermittent_fault_days st + 1 else 0);
          probability_multiplier = 1.0 + real_of_int consecutive * 0.2;
          probability_multiplier = (if intermittent > 5 then probability_multiplier * 1.5
                                    else probability_multiplier);
          effective_risk = failure_risk * probability_multiplier;
          fails = (\<not> failure_occurred st \<and>
                   (if effective_risk > 0.85 then True
                    else if failure_p d < effective_risk * 0.1 then True
                    else False));
          failure_event = (if fails then 1 else 0);
          machine = (if fails then machine\<lparr>previous_failures := previous_failures machine + 1\<rparr>
                     else machine);
          service_flag = (if day_in_cycle = 1 \<and> cycle > 1 then 1 else 0)
      in ((machine,
           \<lparr>failure_occurred = (if fails then True else failure_occurred st),
            consecutive_high_risk_days = consecutive,
            intermittent_fault_days = intermittent\<rparr>),
          \<lparr>row_machine_id = machine_id machine,
           row_cycle = cycle,
           row_day = global_day,
           row_day_in_cycle = day_in_cycle,
           row_temperature = temperature sensor_readings,
           row_vibration = vibration sensor_readings,
           row_rpm = rpm sensor_readings,
           row_load = load sensor_readings,
           row_service_flag = service_flag,
           row_failure_event = failure_event\<rparr>))"

text \<open>The loop \<^verbatim>\<open>for day_in_cycle in range(1, DAYS_PER_CYCLE + 1)\<close>, over the list of days.\<close>

primrec day_loop ::
    "config \<Rightarrow> run_draws \<Rightarrow> int \<Rightarrow> int list \<Rightarrow> machine \<times> cycle_state
       \<Rightarrow> (machine \<times> cycle_state) \<times> row list" where
  "day_loop cfg orc cycle [] ms = (ms, [])"
| "day_loop cfg orc cycle (day_in_cycle # days) ms =
     (let step = daily_operation cfg cycle day_in_cycle
                   (day_of orc cycle (machine_id (fst ms)) day_in_cycle) ms;
          rest = day_loop cfg orc cycle days (fst step)
      in (fst rest, snd step # snd rest))"

text \<open>The body of the loop over \<^verbatim>\<open>machines\<close>.\<close>

definition machine_cycle :: "config \<Rightarrow> run_draws \<Rightarrow> int \<Rightarrow> machine \<Rightarrow> machine \<times> row list" where
  "machine_cycle cfg orc cycle machine =
     (let machine = (if cycle > 1
                     then apply_maintenance machine
                            (workmanship_of orc cycle (machine_id machine))
                     else machine);
          machine = machine\<lparr>cycles_since_service := cycles_since_service machine + 1\<rparr>;
          st = \<lparr>failure_occurred = False,
                consecutive_high_risk_days = 0,
                intermittent_fault_days = 0\<rparr>;
          finished = day_loop cfg orc cycle [1..DAYS_PER_CYCLE cfg] (machine, st)
      in (fst (fst finished), snd finished))"

text \<open>The loop \<^verbatim>\<open>for machine in machines\<close>; the machines are updated in place.\<close>

primrec machine_loop ::
    "config \<Rightarrow> run_draws \<Rightarrow> int \<Rightarrow> machine list \<Rightarrow> machine list \<times> row list" where
  "machine_loop cfg orc cycle [] = ([], [])"
| "machine_loop cfg orc cycle (machine # machines) =
     (let this = machine_cycle cfg orc cycle machine;
          rest = machine_loop cfg orc cycle machines
      in (fst this # fst rest, snd this @ snd rest))"

text \<open>The loop \<^verbatim>\<open>for cycle in range(1, NUM_CYCLES + 1)\<close>, over the list of cycles.\<close>

primrec cycle_loop ::
    "config \<Rightarrow> run_draws \<Rightarrow> int list \<Rightarrow> machine list \<Rightarrow> machine list \<times> row list" where
  "cycle_loop cfg orc [] machines = (machines, [])"
| "cycle_loop cfg orc (cycle # cycles) machines =
     (let this = machine_loop cfg orc cycle machines;
          rest = cycle_loop cfg orc cycles (fst this)
      in (fst rest, snd this @ snd rest))"

text \<open>
  The module-level code: the machines are created, the loops run, and \<^verbatim>\<open>rows\<close> is what is
  written out. The result is the final state of \<^verbatim>\<open>machines\<close> and \<^verbatim>\<open>rows\<close>. The code has
  no check of the configuration and no \<^verbatim>\<open>raise\<close>, so there is no error outcome.
\<close>

definition create_machines :: "config \<Rightarrow> run_draws \<Rightarrow> machine list" where
  "create_machines cfg orc = map (\<lambda>i. MachineBehavior i (init_of orc i)) [1..NUM_MACHINES cfg]"

definition main_loop :: "config \<Rightarrow> run_draws \<Rightarrow> machine list \<times> row list" where
  "main_loop cfg orc = cycle_loop cfg orc [1..NUM_CYCLES cfg] (create_machines cfg orc)"

subsection \<open>Properties of records and machine states\<close>

text \<open>The cycle, machine and day in the cycle a record belongs to.\<close>

definition row_key :: "row \<Rightarrow> int \<times> int \<times> int" where
  "row_key r = (row_cycle r, row_machine_id r, row_day_in_cycle r)"

text \<open>The bounds of the hidden degradation state.\<close>

definition hidden_state_bounds :: "machine \<Rightarrow> bool" where
  "hidden_state_bounds m \<longleftrightarrow>
     0 \<le> bearing_wear m \<and> bearing_wear m \<le> 1 \<and>
     0 \<le> motor_degradation m \<and> motor_degradation m \<le> 1 \<and>
     0.1 \<le> lubrication_quality m \<and> lubrication_quality m \<le> 1"

text \<open>
  The parameters of a machine that the degradation and maintenance formulas use lie in
  the ranges the constructor draws them from; no method changes them.
\<close>

definition created_in_range :: "machine \<Rightarrow> bool" where
  "created_in_range m \<longleftrightarrow>
     0.1 \<le> age m \<and> age m \<le> 8.0 \<and>
     0.5 \<le> wear_resistance m \<and> wear_resistance m \<le> 1.5 \<and>
     1420 \<le> base_rpm m \<and> base_rpm m \<le> 1480 \<and>
     0.7 \<le> maintenance_quality m \<and> maintenance_quality m \<le> 1.0"

definition machine_ok :: "machine \<Rightarrow> bool" where
  "machine_ok m \<longleftrightarrow> created_in_range m \<and> hidden_state_bounds m"

text \<open>
  The draws of a run lie in the ranges of their distributions: those of the constructor,
  and the workmanship \<^verbatim>\<open>random.uniform(0.8, 1.0)\<close> of a maintenance.
\<close>

definition draws_in_range :: "run_draws \<Rightarrow> bool" where
  "draws_in_range orc \<longleftrightarrow>
     (\<forall>i. init_draws_ok (init_of orc i)) \<and>
     (\<forall>c i. 0.8 \<le> workmanship_of orc c i \<and> workmanship_of orc c i \<le> 1.0)"

subsection \<open>Sample inputs\<close>

definition nominal_init_draws :: init_draws where
  "nominal_init_draws =
     \<lparr>age_draw = 4, quality_draw = 0.85, wear_resistance_draw = 1, base_temp_draw = 63,
      base_vib_draw = 0.08, base_rpm_draw = 1450, maintenance_quality_draw = 0.85\<rparr>"

definition nominal_load_draws :: load_draws where
  "nominal_load_draws =
     \<lparr>weekend_load = 50, weekday_load = 68, month_surge = 15, month_dip = 10,
      surge_p = 0.5, surge_amt = 20, dip_p = 0.5, dip_amt = 15\<rparr>"

text \<open>A day on which both anomaly tests of the load pattern succeed.\<close>

definition anomaly_load_draws :: load_draws where
  "anomaly_load_draws =
     \<lparr>weekend_load = 50, weekday_load = 60, month_surge = 15, month_dip = 10,
      surge_p = 0.05, surge_amt = 20, dip_p = 0.05, dip_amt = 15\<rparr>"

definition nominal_sensor_draws :: sensor_draws where
  "nominal_sensor_draws =
     \<lparr>rpm_fluctuation = 0, fault_vib_p = 0.9, fault_vib_factor = 1.2, fault_temp_p = 0.9,
      fault_temp_add = 2, fault_rpm_p = 0.9, fault_rpm_add = 0, noise_temp = 0,
      noise_vib = 0, noise_rpm = 0, glitch_temp_p = 0.5, glitch_temp_add = 5,
      glitch_vib_p = 0.5, glitch_vib_add = 0.1\<rparr>"

definition nominal_risk_draws :: risk_draws where
  "nominal_risk_draws = \<lparr>fault_start_p = 0.5, random_failure_p = 0.5\<rparr>"

definition nominal_day_draws :: day_draws where
  "nominal_day_draws =
     \<lparr>load_d = nominal_load_draws, sensor_d = nominal_sensor_draws,
      risk_d = nominal_risk_draws, failure_p = 0.5\<rparr>"

definition nominal_draws :: run_draws where
  "nominal_draws =
     \<lparr>init_of = (\<lambda>i. nominal_init_draws),
      workmanship_of = (\<lambda>c i. 0.9),
      day_of = (\<lambda>c i dic. nominal_day_draws)\<rparr>"

definition nominal_readings :: readings where
  "nominal_readings = \<lparr>temperature = 70, vibration = 0.1, rpm = 1450, load = 60\<rparr>"

definition nominal_machine :: machine where
  "nominal_machine = MachineBehavior 1 nominal_init_draws"

text \<open>A machine whose bearing is beyond the hard-failure threshold.\<close>

definition worn_machine :: machine where
  "worn_machine = nominal_machine\<lparr>bearing_wear := 0.96\<rparr>"

text \<open>A machine with the lubrication at its floor and a perfect repair quality.\<close>

definition dry_machine :: machine where
  "dry_machine = nominal_machine\<lparr>lubrication_quality := 0.1, maintenance_quality := 1\<rparr>"

text \<open>A machine with a perfect repair quality and the lubrication half used up.\<close>

definition serviced_machine :: machine where
  "serviced_machine = nominal_machine\<lparr>lubrication_quality := 0.5, maintenance_quality := 1\<rparr>"

definition failed_state :: cycle_state where
  "failed_state =
     \<lparr>failure_occurred = True, consecutive_high_risk_days = 0, intermittent_fault_days = 0\<rparr>"

definition single_day_config :: config where
  "single_day_config = \<lparr>NUM_MACHINES = 1, DAYS_PER_CYCLE = 1, NUM_CYCLES = 1\<rparr>"

definition no_machines_config :: config where
  "no_machines_config = \<lparr>NUM_MACHINES = 0, DAYS_PER_CYCLE = 180, NUM_CYCLES = 10\<rparr>"

section \<open>Auxiliary lemmas\<close>

subsection \<open>Rounding and clamping\<close>

lemma round_half_even_ge: "of_int k \<le> x \<Longrightarrow> k \<le> round_half_even x"
proof -
  assume "of_int k \<le> x"
  then have "k \<le> \<lfloor>x\<rfloor>" by (simp add: le_floor_iff)
  then show ?thesis unfolding round_half_even_def Let_def by auto
qed

lemma round_half_even_le: "x \<le> of_int k \<Longrightarrow> round_half_even x \<le> k"
proof -
  assume a: "x \<le> of_int k"
  have f: "\<lfloor>x\<rfloor> \<le> k" using a by linarith
  show ?thesis
  proof (cases "\<lfloor>x\<rfloor> = k")
    case True
    then have "x = of_int k" using a by linarith
    then show ?thesis by (simp add: round_half_even_def)
  next
    case False
    then have "\<lfloor>x\<rfloor> + 1 \<le> k" using f by linarith
    then show ?thesis unfolding round_half_even_def Let_def using f by auto
  qed
qed

lemma py_round_ge: "of_int k \<le> x * 10 ^ n \<Longrightarrow> of_int k / 10 ^ n \<le> py_round x n"
  unfolding py_round_def by (simp add: divide_right_mono round_half_even_ge)

lemma py_round_le: "x * 10 ^ n \<le> of_int k \<Longrightarrow> py_round x n \<le> of_int k / 10 ^ n"
  unfolding py_round_def by (simp add: divide_right_mono round_half_even_le)

lemma py_round_load_bounds:
  assumes "35 \<le> x" "x \<le> 98"
  shows "35 \<le> py_round x 1 \<and> py_round x 1 \<le> 98"
  using py_round_ge [of 350 x 1] py_round_le [of x 1 980] assms by simp

lemma generate_load_pattern_shape:
  "\<exists>x. generate_load_pattern m day cd d = max 35 (min 98 x)"
  unfolding generate_load_pattern_def Let_def by blast

lemma generate_load_pattern_bounds:
  "35 \<le> generate_load_pattern m day cd d" "generate_load_pattern m day cd d \<le> 98"
proof -
  obtain x where e: "generate_load_pattern m day cd d = max 35 (min 98 x)"
    using generate_load_pattern_shape by blast
  show "35 \<le> generate_load_pattern m day cd d" "generate_load_pattern m day cd d \<le> 98"
    unfolding e by simp_all
qed

lemma calculate_sensor_readings_shape:
  "\<exists>t v r. calculate_sensor_readings m dic l d =
     \<lparr>temperature = max 40 (min 95 t), vibration = max 0.02 (min 0.5 v),
      rpm = max 1380 r, load = py_round l 1\<rparr>"
  unfolding calculate_sensor_readings_def Let_def by blast

lemma calculate_sensor_readings_bounds:
  "40 \<le> temperature (calculate_sensor_readings m dic l d)"
  "temperature (calculate_sensor_readings m dic l d) \<le> 95"
  "0.02 \<le> vibration (calculate_sensor_readings m dic l d)"
  "vibration (calculate_sensor_readings m dic l d) \<le> 0.5"
  "1380 \<le> rpm (calculate_sensor_readings m dic l d)"
  "load (calculate_sensor_readings m dic l d) = py_round l 1"
proof -
  obtain t v r where e: "calculate_sensor_readings m dic l d =
     \<lparr>temperature = max 40 (min 95 t), vibration = max 0.02 (min 0.5 v),
      rpm = max 1380 r, load = py_round l 1\<rparr>"
    using calculate_sensor_readings_shape by blast
  show "40 \<le> temperature (calculate_sensor_readings m dic l d)"
    "temperature (calculate_sensor_readings m dic l d) \<le> 95"
    "0.02 \<le> vibration (calculate_sensor_readings m dic l d)"
    "vibration (calculate_sensor_readings m dic l d) \<le> 0.5"
    "1380 \<le> rpm (calculate_sensor_readings m dic l d)"
    "load (calculate_sensor_readings m dic l d) = py_round l 1"
    unfolding e by simp_all
qed

subsection \<open>One simulated day\<close>

lemma check_failure_risk_shape:
  "\<exists>b r. check_failure_risk m s dic d = (m\<lparr>intermittent_fault_active := Some b\<rparr>, min 1.0 r)"
  unfolding check_failure_risk_def Let_def by blast

lemma update_degradation_params:
  "machine_id (update_degradation m s dic) = machine_id m"
  "age (update_degradation m s dic) = age m"
  "wear_resistance (update_degradation m s dic) = wear_resistance m"
  "base_rpm (update_degradation m s dic) = base_rpm m"
  "maintenance_quality (update_degradation m s dic) = maintenance_quality m"
  unfolding update_degradation_def Let_def by simp_all

lemma apply_maintenance_params:
  "machine_id (apply_maintenance m u) = machine_id m"
  "age (apply_maintenance m u) = age m"
  "wear_resistance (apply_maintenance m u) = wear_resistance m"
  "base_rpm (apply_maintenance m u) = base_rpm m"
  "maintenance_quality (apply_maintenance m u) = maintenance_quality m"
  unfolding apply_maintenance_def Let_def by simp_all

text \<open>What one day does to the machine: the degradation update, then the fault flag and
  the failure counter.\<close>

lemma daily_operation_machine:
  "\<exists>b k. fst (fst (daily_operation cfg c dic d (m, st))) =
     (update_degradation m
        (calculate_sensor_readings m dic
           (generate_load_pattern m ((c - 1) * DAYS_PER_CYCLE cfg + dic) dic (load_d d))
           (sensor_d d)) dic)
       \<lparr>intermittent_fault_active := Some b, previous_failures := k\<rparr>"
proof -
  let ?s = "calculate_sensor_readings m dic
           (generate_load_pattern m ((c - 1) * DAYS_PER_CYCLE cfg + dic) dic (load_d d))
           (sensor_d d)"
  let ?u = "update_degradation m ?s dic"
  obtain b r where e: "check_failure_risk ?u ?s dic (risk_d d) =
      (?u\<lparr>intermittent_fault_active := Some b\<rparr>, min 1.0 r)"
    using check_failure_risk_shape by blast
  have "fst (fst (daily_operation cfg c dic d (m, st))) =
      ?u\<lparr>intermittent_fault_active := Some b, previous_failures := previous_failures ?u\<rparr>
    \<or> fst (fst (daily_operation cfg c dic d (m, st))) =
      ?u\<lparr>intermittent_fault_active := Some b, previous_failures := previous_failures ?u + 1\<rparr>"
    by (simp add: daily_operation_def Let_def e)
  then show ?thesis by blast
qed

lemma daily_operation_machine_id:
  "machine_id (fst (fst (daily_operation cfg c dic d (m, st)))) = machine_id m"
proof -
  obtain b k where "fst (fst (daily_operation cfg c dic d (m, st))) =
     (update_degradation m
        (calculate_sensor_readings m dic
           (generate_load_pattern m ((c - 1) * DAYS_PER_CYCLE cfg + dic) dic (load_d d))
           (sensor_d d)) dic)
       \<lparr>intermittent_fault_active := Some b, previous_failures := k\<rparr>"
    using daily_operation_machine by blast
  then show ?thesis by (simp add: update_degradation_params)
qed

lemma daily_operation_row:
  "row_machine_id (snd (daily_operation cfg c dic d (m, st))) = machine_id m"
  "row_cycle (snd (daily_operation cfg c dic d (m, st))) = c"
  "row_day (snd (daily_operation cfg c dic d (m, st))) = (c - 1) * DAYS_PER_CYCLE cfg + dic"
  "row_day_in_cycle (snd (daily_operation cfg c dic d (m, st))) = dic"
  "row_temperature (snd (daily_operation cfg c dic d (m, st))) =
     temperature (calculate_sensor_readings m dic
           (generate_load_pattern m ((c - 1) * DAYS_PER_CYCLE cfg + dic) dic (load_d d))
           (sensor_d d))"
  "row_vibration (snd (daily_operation cfg c dic d (m, st))) =
     vibration (calculate_sensor_readings m dic
           (generate_load_pattern m ((c - 1) * DAYS_PER_CYCLE cfg + dic) dic (load_d d))
           (sensor_d d))"
  "row_rpm (snd (daily_operation cfg c dic d (m, st))) =
     rpm (calculate_sensor_readings m dic
           (generate_load_pattern m ((c - 1) * DAYS_PER_CYCLE cfg + dic) dic (load_d d))
           (sensor_d d))"
  "row_load (snd (daily_operation cfg c dic d (m, st))) =
     load (calculate_sensor_readings m dic
           (generate_load_pattern m ((c - 1) * DAYS_PER_CYCLE cfg + dic) dic (load_d d))
           (sensor_d d))"
  "row_service_flag (snd (daily_operation cfg c dic d (m, st))) =
     (if dic = 1 \<and> c > 1 then 1 else 0)"
proof -
  let ?s = "calculate_sensor_readings m dic
           (generate_load_pattern m ((c - 1) * DAYS_PER_CYCLE cfg + dic) dic (load_d d))
           (sensor_d d)"
  let ?u = "update_degradation m ?s dic"
  obtain b r where e: "check_failure_risk ?u ?s dic (risk_d d) =
      (?u\<lparr>intermittent_fault_active := Some b\<rparr>, min 1.0 r)"
    using check_failure_risk_shape by blast
  show "row_machine_id (snd (daily_operation cfg c dic d (m, st))) = machine_id m"
    by (simp add: daily_operation_def Let_def e update_degradation_params)
  show "row_cycle (snd (daily_operation cfg c dic d (m, st))) = c"
    "row_day (snd (daily_operation cfg c dic d (m, st))) = (c - 1) * DAYS_PER_CYCLE cfg + dic"
    "row_day_in_cycle (snd (daily_operation cfg c dic d (m, st))) = dic"
    "row_temperature (snd (daily_operation cfg c dic d (m, st))) = temperature ?s"
    "row_vibration (snd (daily_operation cfg c dic d (m, st))) = vibration ?s"
    "row_rpm (snd (daily_operation cfg c dic d (m, st))) = rpm ?s"
    "row_load (snd (daily_operation cfg c dic d (m, st))) = load ?s"
    "row_service_flag (snd (daily_operation cfg c dic d (m, st))) =
       (if dic = 1 \<and> c > 1 then 1 else 0)"
    unfolding daily_operation_def Let_def by simp_all
qed

lemma daily_operation_failure_event:
  "row_failure_event (snd (daily_operation cfg c dic d ms)) = 0 \<or>
   row_failure_event (snd (daily_operation cfg c dic d ms)) = 1"
  unfolding daily_operation_def Let_def by simp

lemma daily_operation_after_failure:
  assumes "failure_occurred (snd ms)"
  shows "row_failure_event (snd (daily_operation cfg c dic d ms)) = 0"
    and "failure_occurred (snd (fst (daily_operation cfg c dic d ms)))"
  using assms unfolding daily_operation_def Let_def by simp_all

lemma daily_operation_failure_recorded:
  assumes "row_failure_event (snd (daily_operation cfg c dic d ms)) = 1"
  shows "failure_occurred (snd (fst (daily_operation cfg c dic d ms)))"
  using assms unfolding daily_operation_def Let_def by (simp split: if_splits)

subsection \<open>The loops\<close>

lemma day_loop_machine_id:
  "machine_id (fst (fst (day_loop cfg orc c days ms))) = machine_id (fst ms)"
proof (induction days arbitrary: ms)
  case Nil
  show ?case by simp
next
  case (Cons dic days)
  show ?case
    using Cons.IH daily_operation_machine_id [of cfg c dic _ "fst ms" "snd ms"]
    by (simp add: Let_def)
qed

lemma day_loop_length: "length (snd (day_loop cfg orc c days ms)) = length days"
  by (induction days arbitrary: ms) (simp_all add: Let_def)

lemma day_loop_rows:
  assumes "\<And>dic d ms. P (snd (daily_operation cfg c dic d ms))"
  shows "\<forall>r\<in>set (snd (day_loop cfg orc c days ms)). P r"
  by (induction days arbitrary: ms) (simp_all add: Let_def assms)

lemma day_loop_keys:
  "map row_key (snd (day_loop cfg orc c days ms)) = map (\<lambda>dic. (c, machine_id (fst ms), dic)) days"
proof (induction days arbitrary: ms)
  case Nil
  show ?case by simp
next
  case (Cons dic days)
  have k: "row_key (snd (daily_operation cfg c dic d ms)) = (c, machine_id (fst ms), dic)" for d
    using daily_operation_row(1,2,4) [of cfg c dic d "fst ms" "snd ms"]
    by (simp add: row_key_def)
  show ?case
    using Cons.IH daily_operation_machine_id [of cfg c dic _ "fst ms" "snd ms"]
    by (simp add: Let_def k)
qed

lemma machine_cycle_machine_id:
  "machine_id (fst (machine_cycle cfg orc c m)) = machine_id m"
  unfolding machine_cycle_def Let_def
  by (simp add: day_loop_machine_id apply_maintenance_params)

lemma machine_cycle_length:
  "length (snd (machine_cycle cfg orc c m)) = nat (DAYS_PER_CYCLE cfg)"
  unfolding machine_cycle_def Let_def by (simp add: day_loop_length)

lemma machine_cycle_rows:
  assumes "\<And>dic d ms. P (snd (daily_operation cfg c dic d ms))"
  shows "\<forall>r\<in>set (snd (machine_cycle cfg orc c m)). P r"
  unfolding machine_cycle_def Let_def using day_loop_rows [of P cfg c, OF assms] by simp

lemma machine_cycle_keys:
  "map row_key (snd (machine_cycle cfg orc c m)) =
     map (\<lambda>dic. (c, machine_id m, dic)) [1..DAYS_PER_CYCLE cfg]"
  unfolding machine_cycle_def Let_def
  by (simp add: day_loop_keys apply_maintenance_params)

lemma machine_loop_ids:
  "map machine_id (fst (machine_loop cfg orc c ms)) = map machine_id ms"
  by (induction ms) (simp_all add: Let_def machine_cycle_machine_id)

lemma machine_loop_length:
  "length (snd (machine_loop cfg orc c ms)) = length ms * nat (DAYS_PER_CYCLE cfg)"
  by (induction ms) (simp_all add: Let_def machine_cycle_length)

lemma machine_loop_rows:
  assumes "\<And>dic d ms. P (snd (daily_operation cfg c dic d ms))"
  shows "\<forall>r\<in>set (snd (machine_loop cfg orc c ms)). P r"
  using machine_cycle_rows [of P cfg c, OF assms]
  by (induction ms) (auto simp add: Let_def)

lemma machine_loop_keys:
  "map row_key (snd (machine_loop cfg orc c ms)) =
     map (Pair c) (List.product (map machine_id ms) [1..DAYS_PER_CYCLE cfg])"
  by (induction ms) (simp_all add: Let_def machine_cycle_keys)

lemma cycle_loop_ids:
  "map machine_id (fst (cycle_loop cfg orc cs ms)) = map machine_id ms"
  by (induction cs arbitrary: ms) (simp_all add: Let_def machine_loop_ids)

lemma cycle_loop_length:
  "length (snd (cycle_loop cfg orc cs ms)) = length cs * (length ms * nat (DAYS_PER_CYCLE cfg))"
proof (induction cs arbitrary: ms)
  case Nil
  show ?case by simp
next
  case (Cons c cs)
  have "length (fst (machine_loop cfg orc c ms)) = length ms"
    using machine_loop_ids [of cfg orc c ms] by (metis length_map)
  then show ?case by (simp add: Let_def Cons.IH machine_loop_length)
qed

lemma cycle_loop_rows:
  assumes "\<And>c dic d ms. P (snd (daily_operation cfg c dic d ms))"
  shows "\<forall>r\<in>set (snd (cycle_loop cfg orc cs ms)). P r"
proof (induction cs arbitrary: ms)
  case Nil
  show ?case by simp
next
  case (Cons c cs)
  have "\<forall>r\<in>set (snd (machine_loop cfg orc c ms)). P r"
    by (rule machine_loop_rows) (rule assms)
  then show ?case using Cons.IH by (auto simp add: Let_def)
qed

lemma cycle_loop_keys:
  "map row_key (snd (cycle_loop cfg orc cs ms)) =
     List.product cs (List.product (map machine_id ms) [1..DAYS_PER_CYCLE cfg])"
  by (induction cs arbitrary: ms) (simp_all add: Let_def machine_loop_keys machine_loop_ids)

lemma create_machines_ids: "map machine_id (create_machines cfg orc) = [1..NUM_MACHINES cfg]"
  unfolding create_machines_def by (simp add: MachineBehavior_def comp_def)

lemma main_loop_rows:
  assumes "\<And>c dic d ms. P (snd (daily_operation cfg c dic d ms))"
  shows "\<forall>r\<in>set (snd (main_loop cfg orc)). P r"
  unfolding main_loop_def by (rule cycle_loop_rows) (rule assms)

lemma main_loop_keys:
  "map row_key (snd (main_loop cfg orc)) =
     List.product [1..NUM_CYCLES cfg]
       (List.product [1..NUM_MACHINES cfg] [1..DAYS_PER_CYCLE cfg])"
  unfolding main_loop_def by (simp add: cycle_loop_keys create_machines_ids)

lemma main_loop_length:
  "length (snd (main_loop cfg orc)) =
     nat (NUM_CYCLES cfg) * (nat (NUM_MACHINES cfg) * nat (DAYS_PER_CYCLE cfg))"
  unfolding main_loop_def create_machines_def by (simp add: cycle_loop_length)

subsection \<open>At most one failure\<close>

lemma day_loop_after_failure:
  "failure_occurred (snd ms) \<Longrightarrow>
     \<forall>r\<in>set (snd (day_loop cfg orc c days ms)). row_failure_event r = 0"
proof (induction days arbitrary: ms)
  case Nil
  show ?case by simp
next
  case (Cons dic days)
  let ?step = "daily_operation cfg c dic (day_of orc c (machine_id (fst ms)) dic) ms"
  have "row_failure_event (snd ?step) = 0" and "failure_occurred (snd (fst ?step))"
    using Cons.prems by (simp_all add: daily_operation_after_failure)
  then show ?case using Cons.IH [of "fst ?step"] by (simp add: Let_def)
qed

lemma day_loop_at_most_one:
  "length (filter (\<lambda>r. row_failure_event r = 1) (snd (day_loop cfg orc c days ms))) \<le> 1"
proof (induction days arbitrary: ms)
  case Nil
  show ?case by simp
next
  case (Cons dic days)
  let ?step = "daily_operation cfg c dic (day_of orc c (machine_id (fst ms)) dic) ms"
  let ?rest = "snd (day_loop cfg orc c days (fst ?step))"
  show ?case
  proof (cases "row_failure_event (snd ?step) = 1")
    case True
    then have "failure_occurred (snd (fst ?step))"
      by (rule daily_operation_failure_recorded)
    then have "\<forall>r\<in>set ?rest. row_failure_event r = 0"
      by (rule day_loop_after_failure)
    then have "filter (\<lambda>r. row_failure_event r = 1) ?rest = []"
      by (simp add: filter_empty_conv)
    then show ?thesis using True by (simp add: Let_def)
  next
    case False
    then show ?thesis using Cons.IH [of "fst ?step"] by (simp add: Let_def)
  qed
qed

lemma machine_cycle_at_most_one:
  "length (filter (\<lambda>r. row_failure_event r = 1) (snd (machine_cycle cfg orc c m))) \<le> 1"
  unfolding machine_cycle_def Let_def snd_conv by (rule day_loop_at_most_one)

lemma machine_cycle_row_ids:
  assumes "r \<in> set (snd (machine_cycle cfg orc c m))"
  shows "row_machine_id r = machine_id m"
proof -
  have "row_key r \<in> set (map row_key (snd (machine_cycle cfg orc c m)))"
    using assms by simp
  then show ?thesis unfolding machine_cycle_keys by (auto simp add: row_key_def)
qed

lemma machine_loop_row_ids:
  assumes "r \<in> set (snd (machine_loop cfg orc c ms))"
  shows "row_machine_id r \<in> set (map machine_id ms)" and "row_cycle r = c"
proof -
  have "row_key r \<in> set (map row_key (snd (machine_loop cfg orc c ms)))"
    using assms by simp
  then show "row_machine_id r \<in> set (map machine_id ms)" and "row_cycle r = c"
    unfolding machine_loop_keys by (auto simp add: row_key_def)
qed

lemma cycle_loop_row_cycles:
  assumes "r \<in> set (snd (cycle_loop cfg orc cs ms))"
  shows "row_cycle r \<in> set cs"
proof -
  have "row_key r \<in> set (map row_key (snd (cycle_loop cfg orc cs ms)))"
    using assms by simp
  then show ?thesis unfolding cycle_loop_keys by (auto simp add: row_key_def)
qed

lemma length_filter_conj_le:
  "length (filter (\<lambda>r. A r \<and> B r) xs) \<le> length (filter B xs)"
  by (induction xs) auto

lemma machine_loop_at_most_one:
  "distinct (map machine_id ms) \<Longrightarrow>
     length (filter (\<lambda>r. row_machine_id r = i \<and> row_failure_event r = 1)
               (snd (machine_loop cfg orc c ms))) \<le> 1"
proof (induction ms)
  case Nil
  show ?case by simp
next
  case (Cons m ms)
  let ?P = "\<lambda>r. row_machine_id r = i \<and> row_failure_event r = 1"
  let ?cur = "snd (machine_cycle cfg orc c m)"
  let ?rest = "snd (machine_loop cfg orc c ms)"
  show ?case
  proof (cases "machine_id m = i")
    case True
    then have "i \<notin> set (map machine_id ms)" using Cons.prems by auto
    then have "filter ?P ?rest = []"
      using machine_loop_row_ids(1) [of _ cfg orc c ms] by (auto simp add: filter_empty_conv)
    moreover have "length (filter ?P ?cur) \<le> 1"
      using length_filter_conj_le [of "\<lambda>r. row_machine_id r = i" "\<lambda>r. row_failure_event r = 1" ?cur]
        machine_cycle_at_most_one [of cfg orc c m] by linarith
    ultimately show ?thesis by (simp add: Let_def)
  next
    case False
    then have "filter ?P ?cur = []"
      using machine_cycle_row_ids [of _ cfg orc c m] by (auto simp add: filter_empty_conv)
    then show ?thesis using Cons by (simp add: Let_def)
  qed
qed

lemma cycle_loop_at_most_one:
  "distinct cs \<Longrightarrow> distinct (map machine_id ms) \<Longrightarrow>
     length (filter (\<lambda>r. row_cycle r = c \<and> row_machine_id r = i \<and> row_failure_event r = 1)
               (snd (cycle_loop cfg orc cs ms))) \<le> 1"
proof (induction cs arbitrary: ms)
  case Nil
  show ?case by simp
next
  case (Cons c' cs)
  let ?P = "\<lambda>r. row_cycle r = c \<and> row_machine_id r = i \<and> row_failure_event r = 1"
  let ?cur = "machine_loop cfg orc c' ms"
  let ?rest = "snd (cycle_loop cfg orc cs (fst ?cur))"
  have d: "distinct (map machine_id (fst ?cur))"
    using Cons.prems(2) by (simp add: machine_loop_ids)
  show ?case
  proof (cases "c' = c")
    case True
    then have "c \<notin> set cs" using Cons.prems(1) by auto
    then have "filter ?P ?rest = []"
      using cycle_loop_row_cycles [of _ cfg orc cs "fst ?cur"]
      by (auto simp add: filter_empty_conv)
    moreover have "length (filter ?P (snd ?cur)) \<le> 1"
      using length_filter_conj_le [of "\<lambda>r. row_cycle r = c"
          "\<lambda>r. row_machine_id r = i \<and> row_failure_event r = 1" "snd ?cur"]
        machine_loop_at_most_one [OF Cons.prems(2), of i cfg orc c'] by linarith
    ultimately show ?thesis by (simp add: Let_def)
  next
    case False
    then have "filter ?P (snd ?cur) = []"
      using machine_loop_row_ids(2) [of _ cfg orc c' ms] by (auto simp add: filter_empty_conv)
    then show ?thesis using Cons.IH [OF _ d] Cons.prems(1) by (simp add: Let_def)
  qed
qed

lemma main_loop_at_most_one:
  "length (filter (\<lambda>r. row_cycle r = c \<and> row_machine_id r = i \<and> row_failure_event r = 1)
               (snd (main_loop cfg orc))) \<le> 1"
  unfolding main_loop_def
  by (rule cycle_loop_at_most_one) (simp_all add: create_machines_ids)

subsection \<open>Hidden state\<close>

lemma MachineBehavior_ok:
  "hidden_state_bounds (MachineBehavior i d)"
  "init_draws_ok d \<Longrightarrow> created_in_range (MachineBehavior i d)"
  unfolding hidden_state_bounds_def created_in_range_def MachineBehavior_def init_draws_ok_def
  by simp_all

lemma bearing_increment_pos:
  fixes v l w a :: real
  assumes "0.02 \<le> v" "35 \<le> l" "0 < w" "- 10 < a"
  shows "0 < (v * 0.5 + l / 100 * 0.1) * (1 / w) * 0.001 * min 2.0 (1.0 + a / 10)"
proof -
  have "0 < v * 0.5 + l / 100 * 0.1" using assms(1,2) by simp
  moreover have "0 < 1 / w" using assms(3) by simp
  moreover have "0 < min 2.0 (1.0 + a / 10)" using assms(4) by simp
  ultimately show ?thesis by simp
qed

lemma update_degradation_fields:
  "bearing_wear (update_degradation m s dic) =
     min 1.0 (bearing_wear m +
       (vibration s * 0.5 + load s / 100 * 0.1) * (1 / wear_resistance m) * 0.001 *
         min 2.0 (1.0 + age m / 10))"
  "motor_degradation (update_degradation m s dic) =
     min 1.0 (motor_degradation m +
       (\<bar>rpm s - base_rpm m\<bar> / base_rpm m + max 0 ((temperature s - 65) / 20)) * 0.0005)"
  "lubrication_quality (update_degradation m s dic) =
     max 0.1 (lubrication_quality m * (if temperature s > 75 then 0.998 else 0.9995))"
  unfolding update_degradation_def Let_def by simp_all

lemma update_degradation_bounds:
  assumes h: "hidden_state_bounds m" and p: "created_in_range m"
    and v: "0.02 \<le> vibration s" and l: "35 \<le> load s"
  shows "hidden_state_bounds (update_degradation m s dic)"
proof -
  have "0 < (vibration s * 0.5 + load s / 100 * 0.1) * (1 / wear_resistance m) * 0.001 *
         min 2.0 (1.0 + age m / 10)"
    using v l p by (intro bearing_increment_pos) (simp_all add: created_in_range_def)
  then have b: "0 \<le> bearing_wear (update_degradation m s dic) \<and>
      bearing_wear (update_degradation m s dic) \<le> 1"
    using h unfolding update_degradation_fields hidden_state_bounds_def by simp
  have "0 \<le> \<bar>rpm s - base_rpm m\<bar> / base_rpm m"
    using p by (simp add: created_in_range_def)
  then have "0 \<le> (\<bar>rpm s - base_rpm m\<bar> / base_rpm m + max 0 ((temperature s - 65) / 20)) * 0.0005"
    by simp
  then have d: "0 \<le> motor_degradation (update_degradation m s dic) \<and>
      motor_degradation (update_degradation m s dic) \<le> 1"
    using h unfolding update_degradation_fields hidden_state_bounds_def by simp
  have "lubrication_quality m * (if temperature s > 75 then 0.998 else 0.9995) \<le> 1"
    using h unfolding hidden_state_bounds_def by simp
  then have q: "0.1 \<le> lubrication_quality (update_degradation m s dic) \<and>
      lubrication_quality (update_degradation m s dic) \<le> 1"
    unfolding update_degradation_fields by simp
  show ?thesis using b d q unfolding hidden_state_bounds_def by simp
qed

lemma update_degradation_created:
  "created_in_range (update_degradation m s dic) = created_in_range m"
  unfolding created_in_range_def by (simp add: update_degradation_params)

lemma sensed_load_bounds:
  "35 \<le> load (calculate_sensor_readings m dic (generate_load_pattern m' day cd ld) sd)"
  "load (calculate_sensor_readings m dic (generate_load_pattern m' day cd ld) sd) \<le> 98"
  unfolding calculate_sensor_readings_bounds
  using py_round_load_bounds [OF generate_load_pattern_bounds, of m' day cd ld] by simp_all

lemma effectiveness_range:
  fixes q u :: real
  assumes "0.7 \<le> q" "q \<le> 1" "0.8 \<le> u" "u \<le> 1"
  shows "0.56 \<le> q * u" "q * u \<le> 1"
proof -
  have "0.7 * 0.8 \<le> q * u" using assms by (intro mult_mono) simp_all
  then show "0.56 \<le> q * u" by simp
  have "q * u \<le> 1 * 1" using assms by (intro mult_mono) simp_all
  then show "q * u \<le> 1" by simp
qed

lemma scaled_in_unit:
  fixes x f :: real
  assumes "0 \<le> x" "x \<le> 1" "0 \<le> f" "f \<le> 1"
  shows "0 \<le> x * f" "x * f \<le> 1"
proof -
  show "0 \<le> x * f" using assms by simp
  have "x * f \<le> 1 * 1" using assms by (intro mult_mono) simp_all
  then show "x * f \<le> 1" by simp
qed

lemma reset_factor_range:
  fixes e :: real
  assumes "0.56 \<le> e" "e \<le> 1"
  shows "0 \<le> 0.2 + 0.5 * (1 - e)" "0.2 + 0.5 * (1 - e) \<le> 1"
    "0 \<le> 0.3 + 0.5 * (1 - e)" "0.3 + 0.5 * (1 - e) \<le> 1"
proof -
  show "0 \<le> 0.2 + 0.5 * (1 - e)" using assms by (simp add: field_simps)
  show "0.2 + 0.5 * (1 - e) \<le> 1" using assms by (simp add: field_simps)
  show "0 \<le> 0.3 + 0.5 * (1 - e)" using assms by (simp add: field_simps)
  show "0.3 + 0.5 * (1 - e) \<le> 1" using assms by (simp add: field_simps)
qed

lemma relubrication_range:
  fixes e q :: real
  assumes "0.56 \<le> e" "0.1 \<le> q"
  shows "0.1 \<le> min 1.0 (q + 0.6 * e)" "min 1.0 (q + 0.6 * e) \<le> 1"
proof -
  have "0.1 \<le> q + 0.6 * e" using assms by (simp add: field_simps)
  then show "0.1 \<le> min 1.0 (q + 0.6 * e)" by simp
  show "min 1.0 (q + 0.6 * e) \<le> 1" by simp
qed

lemma apply_maintenance_fields:
  "bearing_wear (apply_maintenance m u) =
     bearing_wear m * (0.2 + 0.5 * (1 - maintenance_quality m * u))"
  "motor_degradation (apply_maintenance m u) =
     motor_degradation m * (0.3 + 0.5 * (1 - maintenance_quality m * u))"
  "lubrication_quality (apply_maintenance m u) =
     min 1.0 (lubrication_quality m + 0.6 * (maintenance_quality m * u))"
  unfolding apply_maintenance_def Let_def by simp_all

lemma apply_maintenance_bounds:
  assumes h: "hidden_state_bounds m" and p: "created_in_range m"
    and u: "0.8 \<le> u" "u \<le> 1"
  shows "hidden_state_bounds (apply_maintenance m u)"
proof -
  let ?e = "maintenance_quality m * u"
  have e: "0.56 \<le> ?e" "?e \<le> 1"
    using p u effectiveness_range [of "maintenance_quality m" u]
    by (simp_all add: created_in_range_def)
  have fb: "0 \<le> 0.2 + 0.5 * (1 - ?e)" "0.2 + 0.5 * (1 - ?e) \<le> 1"
    and fd: "0 \<le> 0.3 + 0.5 * (1 - ?e)" "0.3 + 0.5 * (1 - ?e) \<le> 1"
    using reset_factor_range [OF e] by blast+
  have hb: "0 \<le> bearing_wear m" "bearing_wear m \<le> 1"
    and hd: "0 \<le> motor_degradation m" "motor_degradation m \<le> 1"
    using h by (simp_all add: hidden_state_bounds_def)
  have b: "0 \<le> bearing_wear m * (0.2 + 0.5 * (1 - ?e)) \<and>
      bearing_wear m * (0.2 + 0.5 * (1 - ?e)) \<le> 1"
    using scaled_in_unit [OF hb fb] by blast
  have d: "0 \<le> motor_degradation m * (0.3 + 0.5 * (1 - ?e)) \<and>
      motor_degradation m * (0.3 + 0.5 * (1 - ?e)) \<le> 1"
    using scaled_in_unit [OF hd fd] by blast
  have q: "0.1 \<le> min 1.0 (lubrication_quality m + 0.6 * ?e) \<and>
      min 1.0 (lubrication_quality m + 0.6 * ?e) \<le> 1"
    using relubrication_range [OF e(1), of "lubrication_quality m"] h
    unfolding hidden_state_bounds_def by blast
  show ?thesis
    unfolding hidden_state_bounds_def apply_maintenance_fields using b d q by blast
qed

lemma apply_maintenance_created:
  "created_in_range (apply_maintenance m u) = created_in_range m"
  unfolding created_in_range_def by (simp add: apply_maintenance_params)

lemma machine_ok_flags:
  "machine_ok (m\<lparr>intermittent_fault_active := b, previous_failures := k\<rparr>) = machine_ok m"
  "machine_ok (m\<lparr>cycles_since_service := n\<rparr>) = machine_ok m"
  unfolding machine_ok_def created_in_range_def hidden_state_bounds_def by simp_all

lemma daily_operation_ok:
  assumes "machine_ok m"
  shows "machine_ok (fst (fst (daily_operation cfg c dic d (m, st))))"
proof -
  let ?s = "calculate_sensor_readings m dic
           (generate_load_pattern m ((c - 1) * DAYS_PER_CYCLE cfg + dic) dic (load_d d))
           (sensor_d d)"
  obtain b k where e: "fst (fst (daily_operation cfg c dic d (m, st))) =
     (update_degradation m ?s dic)\<lparr>intermittent_fault_active := Some b, previous_failures := k\<rparr>"
    using daily_operation_machine by blast
  have "hidden_state_bounds m" "created_in_range m"
    using assms by (simp_all add: machine_ok_def)
  then have "hidden_state_bounds (update_degradation m ?s dic)"
    by (rule update_degradation_bounds)
      (rule calculate_sensor_readings_bounds(3), rule sensed_load_bounds(1))
  then show ?thesis
    using assms unfolding e machine_ok_flags by (simp add: machine_ok_def update_degradation_created)
qed

lemma day_loop_ok:
  "machine_ok (fst ms) \<Longrightarrow> machine_ok (fst (fst (day_loop cfg orc c days ms)))"
proof (induction days arbitrary: ms)
  case Nil
  then show ?case by simp
next
  case (Cons dic days)
  let ?step = "daily_operation cfg c dic (day_of orc c (machine_id (fst ms)) dic) ms"
  have "machine_ok (fst (fst ?step))"
    using daily_operation_ok [OF Cons.prems, of cfg c dic _ "snd ms"] by simp
  then show ?case using Cons.IH [of "fst ?step"] by (simp add: Let_def)
qed

lemma machine_cycle_ok:
  assumes "machine_ok m" "0.8 \<le> workmanship_of orc c (machine_id m)"
    "workmanship_of orc c (machine_id m) \<le> 1"
  shows "machine_ok (fst (machine_cycle cfg orc c m))"
proof -
  have "machine_ok (apply_maintenance m (workmanship_of orc c (machine_id m)))"
    using assms unfolding machine_ok_def
    by (simp add: apply_maintenance_created apply_maintenance_bounds)
  then show ?thesis
    unfolding machine_cycle_def Let_def fst_conv
    using assms(1) by (intro day_loop_ok) (simp add: machine_ok_flags)
qed

lemma machine_loop_ok:
  assumes "draws_in_range orc"
  shows "\<forall>m\<in>set ms. machine_ok m \<Longrightarrow> \<forall>m\<in>set (fst (machine_loop cfg orc c ms)). machine_ok m"
proof (induction ms)
  case Nil
  show ?case by simp
next
  case (Cons m ms)
  have "machine_ok (fst (machine_cycle cfg orc c m))"
    using Cons.prems assms by (intro machine_cycle_ok) (simp_all add: draws_in_range_def)
  then show ?case using Cons by (simp add: Let_def)
qed

lemma cycle_loop_ok:
  assumes "draws_in_range orc"
  shows "\<forall>m\<in>set ms. machine_ok m \<Longrightarrow> \<forall>m\<in>set (fst (cycle_loop cfg orc cs ms)). machine_ok m"
proof (induction cs arbitrary: ms)
  case Nil
  then show ?case by simp
next
  case (Cons c cs)
  have "\<forall>m\<in>set (fst (machine_loop cfg orc c ms)). machine_ok m"
    using machine_loop_ok [OF assms Cons.prems] .
  then show ?case using Cons.IH by (simp add: Let_def)
qed

lemma create_machines_ok:
  assumes "draws_in_range orc"
  shows "\<forall>m\<in>set (create_machines cfg orc). machine_ok m"
  using assms unfolding create_machines_def machine_ok_def draws_in_range_def
  by (simp add: MachineBehavior_ok)

lemma main_loop_ok:
  assumes "draws_in_range orc"
  shows "\<forall>m\<in>set (fst (main_loop cfg orc)). machine_ok m"
  unfolding main_loop_def using cycle_loop_ok [OF assms create_machines_ok [OF assms]] .

lemma main_loop_ids: "map machine_id (fst (main_loop cfg orc)) = [1..NUM_MACHINES cfg]"
  unfolding main_loop_def by (simp add: cycle_loop_ids create_machines_ids)

lemma nominal_machine_ok:
  "created_in_range nominal_machine" "hidden_state_bounds nominal_machine"
  unfolding nominal_machine_def
  by (simp_all add: MachineBehavior_ok init_draws_ok_def nominal_init_draws_def)

lemma nominal_draws_in_range: "draws_in_range nominal_draws"
  by (simp add: draws_in_range_def nominal_draws_def init_draws_ok_def nominal_init_draws_def)

section \<open>The specified properties\<close>

subsection \<open>Sensor ranges of the generated records\<close>

text \<open>
  Claim C1. For every record emitted by the simulation driver (every machine, cycle and
  day): \<open>40 \<le> temperature \<le> 95\<close>, \<open>0.02 \<le> vibration \<le> 0.5\<close>, \<open>rpm \<ge> 1380\<close>,
  \<open>35 \<le> load \<le> 98\<close>, and \<open>failure_event\<close> and \<open>service_flag\<close> are each 0 or 1.
  This holds for every configuration and whatever the random generators return.
\<close>

theorem generated_records_in_range:
  "\<forall>r\<in>set (snd (main_loop cfg orc)).
     40 \<le> row_temperature r \<and> row_temperature r \<le> 95 \<and>
     0.02 \<le> row_vibration r \<and> row_vibration r \<le> 0.5 \<and>
     1380 \<le> row_rpm r \<and>
     35 \<le> row_load r \<and> row_load r \<le> 98 \<and>
     (row_failure_event r = 0 \<or> row_failure_event r = 1) \<and>
     (row_service_flag r = 0 \<or> row_service_flag r = 1)"
proof (rule main_loop_rows)
  fix c dic d and ms :: "machine \<times> cycle_state"
  obtain m st where ms: "ms = (m, st)" by (cases ms)
  show "40 \<le> row_temperature (snd (daily_operation cfg c dic d ms)) \<and>
     row_temperature (snd (daily_operation cfg c dic d ms)) \<le> 95 \<and>
     0.02 \<le> row_vibration (snd (daily_operation cfg c dic d ms)) \<and>
     row_vibration (snd (daily_operation cfg c dic d ms)) \<le> 0.5 \<and>
     1380 \<le> row_rpm (snd (daily_operation cfg c dic d ms)) \<and>
     35 \<le> row_load (snd (daily_operation cfg c dic d ms)) \<and>
     row_load (snd (daily_operation cfg c dic d ms)) \<le> 98 \<and>
     (row_failure_event (snd (daily_operation cfg c dic d ms)) = 0 \<or>
      row_failure_event (snd (daily_operation cfg c dic d ms)) = 1) \<and>
     (row_service_flag (snd (daily_operation cfg c dic d ms)) = 0 \<or>
      row_service_flag (snd (daily_operation cfg c dic d ms)) = 1)"
  proof -
    let ?l = "generate_load_pattern m ((c - 1) * DAYS_PER_CYCLE cfg + dic) dic (load_d d)"
    have "row_service_flag (snd (daily_operation cfg c dic d ms)) = 0 \<or>
        row_service_flag (snd (daily_operation cfg c dic d ms)) = 1"
      unfolding ms daily_operation_row by simp
    then show ?thesis
      using daily_operation_failure_event [of cfg c dic d ms]
        calculate_sensor_readings_bounds(1-5) [of m dic ?l "sensor_d d"]
        sensed_load_bounds [of m dic m "(c - 1) * DAYS_PER_CYCLE cfg + dic" dic "load_d d" "sensor_d d"]
      unfolding ms daily_operation_row by blast
  qed
qed

text \<open>
  Claim C1, at a concrete run: one machine, one cycle of one day. The run emits a record,
  and the record is in range.
\<close>

theorem generated_records_in_range_witness:
  "hd (snd (main_loop single_day_config nominal_draws))
     \<in> set (snd (main_loop single_day_config nominal_draws)) \<and>
   40 \<le> row_temperature (hd (snd (main_loop single_day_config nominal_draws))) \<and>
   row_temperature (hd (snd (main_loop single_day_config nominal_draws))) \<le> 95 \<and>
   0.02 \<le> row_vibration (hd (snd (main_loop single_day_config nominal_draws))) \<and>
   row_vibration (hd (snd (main_loop single_day_config nominal_draws))) \<le> 0.5 \<and>
   1380 \<le> row_rpm (hd (snd (main_loop single_day_config nominal_draws))) \<and>
   35 \<le> row_load (hd (snd (main_loop single_day_config nominal_draws))) \<and>
   row_load (hd (snd (main_loop single_day_config nominal_draws))) \<le> 98"
proof -
  have "length (snd (main_loop single_day_config nominal_draws)) = 1"
    by (simp add: main_loop_length single_day_config_def)
  then have "snd (main_loop single_day_config nominal_draws) \<noteq> []" by auto
  then have "hd (snd (main_loop single_day_config nominal_draws))
     \<in> set (snd (main_loop single_day_config nominal_draws))" by simp
  then show ?thesis
    using generated_records_in_range [of single_day_config nominal_draws] by blast
qed

subsection \<open>At most one failure per machine and cycle\<close>

text \<open>
  Claim C2. For every machine \<open>i\<close> and every cycle \<open>c\<close>, at most one record of the run
  has \<open>failure_event = 1\<close>. Once a failure is recorded (\<open>failure_occurred\<close> is set), every
  remaining day of the cycle still emits its record, with \<open>failure_event = 0\<close>, and the flag
  stays set; whatever the flag, the day still synthesises the sensor readings and applies
  the degradation update to the machine; and each cycle of a machine starts its days with
  \<open>failure_occurred = False\<close> and the counters at 0.
\<close>

theorem at_most_one_failure_per_cycle:
  "length (filter (\<lambda>r. row_cycle r = c \<and> row_machine_id r = i \<and> row_failure_event r = 1)
             (snd (main_loop cfg orc))) \<le> 1 \<and>
   (failure_occurred st \<longrightarrow>
      (\<forall>r\<in>set (snd (day_loop cfg orc c days (m, st))). row_failure_event r = 0) \<and>
      length (snd (day_loop cfg orc c days (m, st))) = length days \<and>
      failure_occurred (snd (fst (daily_operation cfg c dic d (m, st))))) \<and>
   (\<exists>b k. fst (fst (daily_operation cfg c dic d (m, st))) =
      (update_degradation m
         (calculate_sensor_readings m dic
            (generate_load_pattern m ((c - 1) * DAYS_PER_CYCLE cfg + dic) dic (load_d d))
            (sensor_d d)) dic)
        \<lparr>intermittent_fault_active := Some b, previous_failures := k\<rparr>) \<and>
   (\<exists>m'. snd (machine_cycle cfg orc c m) =
      snd (day_loop cfg orc c [1..DAYS_PER_CYCLE cfg]
             (m', \<lparr>failure_occurred = False, consecutive_high_risk_days = 0,
                   intermittent_fault_days = 0\<rparr>)))"
proof -
  have "failure_occurred st \<longrightarrow>
      (\<forall>r\<in>set (snd (day_loop cfg orc c days (m, st))). row_failure_event r = 0) \<and>
      length (snd (day_loop cfg orc c days (m, st))) = length days \<and>
      failure_occurred (snd (fst (daily_operation cfg c dic d (m, st))))"
    using day_loop_after_failure [of "(m, st)" cfg orc c days]
      daily_operation_after_failure(2) [of "(m, st)" cfg c dic d]
    by (simp add: day_loop_length)
  moreover have "\<exists>m'. snd (machine_cycle cfg orc c m) =
      snd (day_loop cfg orc c [1..DAYS_PER_CYCLE cfg]
             (m', \<lparr>failure_occurred = False, consecutive_high_risk_days = 0,
                   intermittent_fault_days = 0\<rparr>))"
    unfolding machine_cycle_def Let_def snd_conv by blast
  ultimately show ?thesis
    using main_loop_at_most_one [of c i cfg orc] daily_operation_machine [of cfg c dic d m st]
    by blast
qed

text \<open>
  Claim C2, at concrete inputs: two days run from a state in which the failure has
  occurred emit two records without a failure, and the first machine has at most one
  failure in the first cycle of the default run.
\<close>

theorem at_most_one_failure_per_cycle_witness:
  "failure_occurred failed_state \<and>
   hd (snd (day_loop default_config nominal_draws 1 [2, 3] (nominal_machine, failed_state)))
     \<in> set (snd (day_loop default_config nominal_draws 1 [2, 3] (nominal_machine, failed_state))) \<and>
   row_failure_event
     (hd (snd (day_loop default_config nominal_draws 1 [2, 3] (nominal_machine, failed_state)))) = 0 \<and>
   length (snd (day_loop default_config nominal_draws 1 [2, 3] (nominal_machine, failed_state))) = 2 \<and>
   length (filter (\<lambda>r. row_cycle r = 1 \<and> row_machine_id r = 1 \<and> row_failure_event r = 1)
             (snd (main_loop default_config nominal_draws))) \<le> 1"
proof -
  let ?rows = "snd (day_loop default_config nominal_draws 1 [2, 3] (nominal_machine, failed_state))"
  have f: "failure_occurred failed_state" by (simp add: failed_state_def)
  have "length ?rows = length [2, 3 :: int]" by (rule day_loop_length)
  then have "?rows \<noteq> []" by auto
  then have h: "hd ?rows \<in> set ?rows" by simp
  show ?thesis
    using f h at_most_one_failure_per_cycle [of 1 1 default_config nominal_draws failed_state
        "[2, 3]" nominal_machine 2 nominal_day_draws]
    by auto
qed

subsection \<open>Bounds of the hidden state\<close>

text \<open>
  Claim C3. The hidden state satisfies \<open>0 \<le> bearing_wear \<le> 1\<close>,
  \<open>0 \<le> motor_degradation \<le> 1\<close> and \<open>0.1 \<le> lubrication_quality \<le> 1\<close>
  \<^item> after the creation of a machine;
  \<^item> after every daily degradation update, applied as the driver does to the readings
    synthesised from the day's load, when it held before;
  \<^item> immediately after a maintenance whose workmanship lies in the range
    \<open>[0.8, 1.0]\<close> it is drawn from, when it held before;
  \<^item> after a whole day of the driver and after any number of days of a cycle;
  \<^item> and so for every machine when the machines are created and when the run ends,
    for every configuration, provided the draws of the constructor and of the
    maintenance lie in the ranges of their distributions.
  The parameters of a machine (age, wear resistance, base speed, maintenance quality) are
  taken in the ranges the constructor draws them from.
\<close>

theorem hidden_state_within_bounds:
  "hidden_state_bounds (MachineBehavior i d0) \<and>
   (created_in_range m \<and> hidden_state_bounds m \<longrightarrow>
      hidden_state_bounds
        (update_degradation m
           (calculate_sensor_readings m dic (generate_load_pattern m day dic ld) sd) dic)) \<and>
   (created_in_range m \<and> hidden_state_bounds m \<and> 0.8 \<le> u \<and> u \<le> 1.0 \<longrightarrow>
      hidden_state_bounds (apply_maintenance m u)) \<and>
   (created_in_range m \<and> hidden_state_bounds m \<longrightarrow>
      hidden_state_bounds (fst (fst (daily_operation cfg c dic d (m, st)))) \<and>
      hidden_state_bounds (fst (fst (day_loop cfg orc c days (m, st))))) \<and>
   (draws_in_range orc \<longrightarrow>
      (\<forall>m\<in>set (create_machines cfg orc). created_in_range m \<and> hidden_state_bounds m) \<and>
      (\<forall>m\<in>set (fst (main_loop cfg orc)). created_in_range m \<and> hidden_state_bounds m))"
proof -
  have "created_in_range m \<and> hidden_state_bounds m \<longrightarrow>
      hidden_state_bounds
        (update_degradation m
           (calculate_sensor_readings m dic (generate_load_pattern m day dic ld) sd) dic)"
    using update_degradation_bounds [OF _ _ calculate_sensor_readings_bounds(3) sensed_load_bounds(1)]
    by blast
  moreover have "created_in_range m \<and> hidden_state_bounds m \<and> 0.8 \<le> u \<and> u \<le> 1.0 \<longrightarrow>
      hidden_state_bounds (apply_maintenance m u)"
    using apply_maintenance_bounds [of m u] by simp
  moreover have "created_in_range m \<and> hidden_state_bounds m \<longrightarrow>
      hidden_state_bounds (fst (fst (daily_operation cfg c dic d (m, st)))) \<and>
      hidden_state_bounds (fst (fst (day_loop cfg orc c days (m, st))))"
    using daily_operation_ok [of m cfg c dic d st] day_loop_ok [of "(m, st)" cfg orc c days]
    by (simp add: machine_ok_def)
  moreover have "draws_in_range orc \<longrightarrow>
      (\<forall>m\<in>set (create_machines cfg orc). created_in_range m \<and> hidden_state_bounds m) \<and>
      (\<forall>m\<in>set (fst (main_loop cfg orc)). created_in_range m \<and> hidden_state_bounds m)"
    using create_machines_ok [of orc cfg] main_loop_ok [of orc cfg]
    by (simp add: machine_ok_def)
  ultimately show ?thesis using MachineBehavior_ok(1) [of i d0] by blast
qed

text \<open>
  Claim C3, at concrete inputs: the nominal machine, a workmanship of 0.9, three days of
  the first cycle, and the first machine at the end of the default run.
\<close>

theorem hidden_state_within_bounds_witness:
  "created_in_range nominal_machine \<and> hidden_state_bounds nominal_machine \<and>
   (0.8::real) \<le> 0.9 \<and> (0.9::real) \<le> 1.0 \<and>
   hidden_state_bounds (MachineBehavior 1 nominal_init_draws) \<and>
   hidden_state_bounds
     (update_degradation nominal_machine
        (calculate_sensor_readings nominal_machine 1
           (generate_load_pattern nominal_machine 1 1 nominal_load_draws)
           nominal_sensor_draws) 1) \<and>
   hidden_state_bounds (apply_maintenance nominal_machine 0.9) \<and>
   hidden_state_bounds
     (fst (fst (day_loop default_config nominal_draws 1 [1, 2, 3]
                  (nominal_machine, failed_state)))) \<and>
   draws_in_range nominal_draws \<and>
   hd (fst (main_loop default_config nominal_draws))
     \<in> set (fst (main_loop default_config nominal_draws)) \<and>
   hidden_state_bounds (hd (fst (main_loop default_config nominal_draws)))"
proof -
  have "map machine_id (fst (main_loop default_config nominal_draws)) \<noteq> []"
    unfolding main_loop_ids by (simp add: default_config_def upto.simps)
  then have "hd (fst (main_loop default_config nominal_draws))
     \<in> set (fst (main_loop default_config nominal_draws))"
    by simp
  moreover have "(0.8::real) \<le> 0.9 \<and> (0.9::real) \<le> 1.0" by simp
  ultimately show ?thesis
    using nominal_machine_ok nominal_draws_in_range
      hidden_state_within_bounds [of 1 nominal_init_draws nominal_machine 1 1
        nominal_load_draws nominal_sensor_draws "0.9" default_config 1 nominal_day_draws
        failed_state nominal_draws "[1, 2, 3]"]
    by blast
qed

subsection \<open>The bearing wear override of the failure risk\<close>

text \<open>
  Claim C4. For every machine state with \<open>bearing_wear > 0.95\<close> the failure risk is exactly
  1.0, whatever the sensor readings (in particular when \<open>temperature < 85\<close>,
  \<open>vibration < 0.35\<close> and \<open>lubrication_quality \<ge> 0.05\<close>, so that no other hard-failure
  condition holds), the per-mode risks, the age multiplier and the random-failure draw.
\<close>

theorem bearing_wear_override:
  "bearing_wear m > 0.95 \<Longrightarrow> snd (check_failure_risk m s day_in_cycle d) = 1.0"
  unfolding check_failure_risk_def Let_def by simp

text \<open>
  Claim C4, at a concrete input: a bearing wear of 0.96 with a temperature of 70, a
  vibration of 0.1 and perfect lubrication.
\<close>

theorem bearing_wear_override_witness:
  "bearing_wear worn_machine > 0.95 \<and> temperature nominal_readings < 85 \<and>
   vibration nominal_readings < 0.35 \<and> lubrication_quality worn_machine \<ge> 0.05 \<and>
   snd (check_failure_risk worn_machine nominal_readings 50 nominal_risk_draws) = 1.0"
proof -
  have w: "bearing_wear worn_machine > 0.95"
    by (simp add: worn_machine_def)
  have "temperature nominal_readings < 85" "vibration nominal_readings < 0.35"
    "lubrication_quality worn_machine \<ge> 0.05"
    by (simp_all add: nominal_readings_def worn_machine_def nominal_machine_def
        MachineBehavior_def)
  then show ?thesis using w bearing_wear_override [OF w] by blast
qed

subsection \<open>The anomalies of the load pattern\<close>

text \<open>
  Claim C5 says that the anomaly surge and the anomaly dip are independent, so that both
  can be applied to the same load value. They are not: the dip is the \<^verbatim>\<open>elif\<close> branch of
  the surge. On day 365, with a base load of 60 and both tests below their thresholds
  (surge amount 20, dip amount 15), the load is \<open>60 + 20\<close>: the dip is not subtracted.
\<close>

theorem surge_and_dip_same_day_counterexample:
  "surge_p anomaly_load_draws < 0.1 \<and> dip_p anomaly_load_draws < 0.08 \<and>
   generate_load_pattern nominal_machine 365 5 anomaly_load_draws = 60 + 20 \<and>
   generate_load_pattern nominal_machine 365 5 anomaly_load_draws \<noteq> 60 + 20 - 15"
  by (simp add: generate_load_pattern_def anomaly_load_draws_def)

text \<open>
  Claim C5, amended. The two anomalies exclude each other. There is a load \<open>b\<close> (the
  seasonally adjusted base load, which does not depend on the anomaly draws) such that the
  day's load is the clamped value of \<open>b\<close> plus the surge amount when the surge test
  succeeds (its draw is below 0.1), whatever the dip draw; of \<open>b\<close> minus the dip amount
  when the surge test fails and the dip test succeeds (its draw is below 0.08); and of
  \<open>b\<close> otherwise. So at most one of the two is applied on a day.
\<close>

theorem surge_excludes_dip:
  "\<exists>b. \<forall>sp sa dp da.
     generate_load_pattern m day cd
       (d\<lparr>surge_p := sp, surge_amt := sa, dip_p := dp, dip_amt := da\<rparr>) =
     max 35 (min 98 (if sp < 0.1 then b + sa else if dp < 0.08 then b - da else b))"
proof -
  let ?season = "1.0 + 0.1 * sin (2 * pi * real_of_int (day mod 365) / 365)"
  let ?week = "if day mod 7 \<in> set [5, 6] then weekend_load d else weekday_load d"
  let ?month = "if day mod 30 < 5 then ?week + month_surge d
                else if day mod 30 > 25 then ?week - month_dip d else ?week"
  have "generate_load_pattern m day cd
       (d\<lparr>surge_p := sp, surge_amt := sa, dip_p := dp, dip_amt := da\<rparr>) =
     max 35 (min 98 (if sp < 0.1 then ?month * ?season + sa
                     else if dp < 0.08 then ?month * ?season - da else ?month * ?season))"
    for sp sa dp da
    unfolding generate_load_pattern_def Let_def by (simp split del: if_split cong: if_cong)
  then show ?thesis by blast
qed

subsection \<open>Maintenance at full effectiveness\<close>

text \<open>
  Claim C6 says that a maintenance of effectiveness 1 sets \<open>lubrication_quality\<close> to 1.0
  for every starting value in \<open>[0.1, 1]\<close>. From a lubrication quality of 0.1 it yields
  0.7.
\<close>

theorem full_effectiveness_lubrication_counterexample:
  "maintenance_quality dry_machine * 1 = 1 \<and>
   0.1 \<le> lubrication_quality dry_machine \<and> lubrication_quality dry_machine \<le> 1 \<and>
   lubrication_quality (apply_maintenance dry_machine 1) = 0.7 \<and>
   lubrication_quality (apply_maintenance dry_machine 1) \<noteq> 1.0"
  by (simp add: apply_maintenance_fields dry_machine_def)

text \<open>
  Claim C6, amended. Applying maintenance with effectiveness equal to 1 multiplies
  \<open>bearing_wear\<close> by 0.2 and \<open>motor_degradation\<close> by 0.3 and sets
  \<open>lubrication_quality\<close> to \<open>min 1 (lubrication_quality + 0.6)\<close>, which is 1.0 exactly
  when the starting value is at least 0.4.
\<close>

theorem maintenance_at_full_effectiveness:
  assumes "maintenance_quality m * u = 1"
  shows "bearing_wear (apply_maintenance m u) = bearing_wear m * 0.2 \<and>
         motor_degradation (apply_maintenance m u) = motor_degradation m * 0.3 \<and>
         lubrication_quality (apply_maintenance m u) = min 1.0 (lubrication_quality m + 0.6) \<and>
         (lubrication_quality (apply_maintenance m u) = 1.0 \<longleftrightarrow> 0.4 \<le> lubrication_quality m)"
  unfolding apply_maintenance_fields assms by (auto simp add: min_def)

text \<open>
  Claim C6 as amended, at a concrete input: a maintenance quality of 1, a workmanship of 1
  and a lubrication quality of 0.5.
\<close>

theorem maintenance_at_full_effectiveness_witness:
  "maintenance_quality serviced_machine * 1 = 1 \<and>
   bearing_wear (apply_maintenance serviced_machine 1) = bearing_wear serviced_machine * 0.2 \<and>
   motor_degradation (apply_maintenance serviced_machine 1) =
     motor_degradation serviced_machine * 0.3 \<and>
   lubrication_quality (apply_maintenance serviced_machine 1) = 1.0"
proof -
  have h: "maintenance_quality serviced_machine * 1 = 1"
    by (simp add: serviced_machine_def)
  have "0.4 \<le> lubrication_quality serviced_machine"
    by (simp add: serviced_machine_def)
  then show ?thesis using h maintenance_at_full_effectiveness [OF h] by blast
qed

subsection \<open>The seasonal ambient term\<close>

text \<open>
  Claim C7 says that the seasonal ambient term of the temperature is
  \<open>3 sin (2 \<pi> (day mod 365) / 365)\<close> for the absolute day of the run, as the seasonal
  factor of the load pattern is. The driver passes the day in the cycle to
  \<^verbatim>\<open>calculate_sensor_readings\<close>, which takes it modulo 365. In the default configuration
  day 5 of cycle 3 is the absolute day 365, where the formula of the claim gives 0; the
  term the code computes there is that of day 5, which is positive. The record of that
  day carries the absolute day 365, its load is computed from day 365 and its temperature
  from day 5.
\<close>

theorem seasonal_ambient_uses_day_in_cycle:
  "(3 - 1) * DAYS_PER_CYCLE default_config + 5 = 365 \<and>
   3 * sin (2 * pi * real_of_int (365 mod 365) / 365) = 0 \<and>
   0 < seasonal_temp_effect 5 \<and>
   seasonal_temp_effect 5 = 3 * sin (2 * pi * real_of_int (5 mod 365) / 365) \<and>
   row_day (snd (daily_operation default_config 3 5 d (m, st))) = 365 \<and>
   row_temperature (snd (daily_operation default_config 3 5 d (m, st))) =
     temperature (calculate_sensor_readings m 5
                    (generate_load_pattern m 365 5 (load_d d)) (sensor_d d))"
proof -
  have "0 < sin (2 * pi * 5 / 365)"
    by (rule sin_gt_zero) simp_all
  then have "0 < seasonal_temp_effect 5"
    by (simp add: seasonal_temp_effect_def)
  then show ?thesis
    unfolding daily_operation_row
    by (simp add: default_config_def seasonal_temp_effect_def)
qed

subsection \<open>Non-positive configurations\<close>

text \<open>
  Claim C8 says that a configuration with a non-positive machine count, cycle count or
  number of days per cycle is rejected with a configuration error instead of producing an
  empty dataset. The code has no such check: with no machines the loops run to their end
  and the dataset is empty.
\<close>

theorem non_positive_configuration_counterexample:
  "NUM_MACHINES no_machines_config \<le> 0 \<and>
   main_loop no_machines_config nominal_draws = ([], [])"
proof -
  have "cycle_loop cfg orc cs [] = ([], [])" for cfg orc cs
    by (induction cs) simp_all
  then show ?thesis
    by (simp add: main_loop_def create_machines_def no_machines_config_def)
qed

text \<open>
  Claim C8, amended. No configuration is rejected: when the machine count, the cycle count
  or the number of days per cycle is non-positive, the run completes and emits no record.
\<close>

theorem non_positive_configuration_runs_empty:
  assumes "NUM_MACHINES cfg \<le> 0 \<or> NUM_CYCLES cfg \<le> 0 \<or> DAYS_PER_CYCLE cfg \<le> 0"
  shows "snd (main_loop cfg orc) = []"
proof -
  have "length (snd (main_loop cfg orc)) = 0"
    unfolding main_loop_length using assms by auto
  then show ?thesis by simp
qed

text \<open>
  Claim C8 as amended, at a concrete input: the default configuration with 0 days per
  cycle.
\<close>

theorem non_positive_configuration_runs_empty_witness:
  "DAYS_PER_CYCLE (default_config\<lparr>DAYS_PER_CYCLE := 0\<rparr>) \<le> 0 \<and>
   snd (main_loop (default_config\<lparr>DAYS_PER_CYCLE := 0\<rparr>) nominal_draws) = []"
  using non_positive_configuration_runs_empty [of "default_config\<lparr>DAYS_PER_CYCLE := 0\<rparr>" nominal_draws]
  by simp

subsection \<open>The number of records\<close>

text \<open>
  Claim C9. For positive \<open>M\<close> machines, \<open>C\<close> cycles and \<open>D\<close> days per cycle the run emits
  exactly \<open>M * C * D\<close> records. Listed by cycle, machine and day in the cycle, the records
  are exactly the triples of \<open>[1..C]\<close>, \<open>[1..M]\<close> and \<open>[1..D]\<close>, cycle by cycle and machine
  by machine, each once: no machine-day is omitted or duplicated. The default
  configuration yields 18000 records.
\<close>

theorem record_count:
  assumes "0 < NUM_MACHINES cfg" "0 < NUM_CYCLES cfg" "0 < DAYS_PER_CYCLE cfg"
  shows "int (length (snd (main_loop cfg orc))) =
           NUM_MACHINES cfg * NUM_CYCLES cfg * DAYS_PER_CYCLE cfg \<and>
         map row_key (snd (main_loop cfg orc)) =
           List.product [1..NUM_CYCLES cfg]
             (List.product [1..NUM_MACHINES cfg] [1..DAYS_PER_CYCLE cfg]) \<and>
         distinct (map row_key (snd (main_loop cfg orc))) \<and>
         set (map row_key (snd (main_loop cfg orc))) =
           {1..NUM_CYCLES cfg} \<times> ({1..NUM_MACHINES cfg} \<times> {1..DAYS_PER_CYCLE cfg}) \<and>
         length (snd (main_loop default_config orc)) = 18000"
proof -
  have "int (length (snd (main_loop cfg orc))) =
           NUM_MACHINES cfg * NUM_CYCLES cfg * DAYS_PER_CYCLE cfg"
    using assms by (simp add: main_loop_length)
  moreover have "distinct (map row_key (snd (main_loop cfg orc)))"
    unfolding main_loop_keys by (intro distinct_product) simp_all
  moreover have "set (map row_key (snd (main_loop cfg orc))) =
           {1..NUM_CYCLES cfg} \<times> ({1..NUM_MACHINES cfg} \<times> {1..DAYS_PER_CYCLE cfg})"
    unfolding main_loop_keys by simp
  moreover have "length (snd (main_loop default_config orc)) = 18000"
    by (simp add: main_loop_length default_config_def)
  ultimately show ?thesis using main_loop_keys by blast
qed

text \<open>
  Claim C9, at the default configuration of 10 machines, 10 cycles and 180 days.
\<close>

theorem record_count_witness:
  "0 < NUM_MACHINES default_config \<and> 0 < NUM_CYCLES default_config \<and>
   0 < DAYS_PER_CYCLE default_config \<and>
   int (length (snd (main_loop default_config nominal_draws))) = 10 * 10 * 180"
  using record_count [of default_config nominal_draws] by (simp add: default_config_def)

subsection \<open>Growth of the bearing wear\<close>

text \<open>
  Claim C10. For a machine with \<open>bearing_wear < 1\<close> and \<open>wear_resistance > 0\<close>, and readings
  with \<open>vibration \<ge> 0.02\<close> and \<open>load \<ge> 35\<close>, the increment
  \<open>(vibration * 0.5 + load / 100 * 0.1) / wear_resistance * 0.001 * age_factor\<close> is
  strictly positive and the degradation update strictly increases \<open>bearing_wear\<close>, up to
  the cap of 1.0. The age factor \<open>min 2 (1 + age / 10)\<close> is positive for an age above
  \<open>-10\<close>; the constructor draws the age from \<open>[0.1, 8]\<close> and nothing changes it. So for
  a machine with parameters in the constructor's ranges every day of the driver strictly
  increases a bearing wear below 1.
\<close>

theorem bearing_wear_strictly_increases:
  "(bearing_wear m < 1.0 \<and> 0 < wear_resistance m \<and> - 10 < age m \<and>
    0.02 \<le> vibration s \<and> 35 \<le> load s \<longrightarrow>
      0 < (vibration s * 0.5 + load s / 100 * 0.1) / wear_resistance m * 0.001 *
            min 2.0 (1.0 + age m / 10) \<and>
      bearing_wear (update_degradation m s dic) =
        min 1.0 (bearing_wear m +
          (vibration s * 0.5 + load s / 100 * 0.1) / wear_resistance m * 0.001 *
            min 2.0 (1.0 + age m / 10)) \<and>
      bearing_wear m < bearing_wear (update_degradation m s dic)) \<and>
   (bearing_wear m < 1.0 \<and> created_in_range m \<longrightarrow>
      bearing_wear m < bearing_wear (fst (fst (daily_operation cfg c dic d (m, st)))))"
proof -
  let ?inc = "\<lambda>s. (vibration s * 0.5 + load s / 100 * 0.1) * (1 / wear_resistance m) * 0.001 *
            min 2.0 (1.0 + age m / 10)"
  have step: "bearing_wear m < bearing_wear (update_degradation m s dic)"
    if "bearing_wear m < 1.0" "0 < wear_resistance m" "- 10 < age m"
      "0.02 \<le> vibration s" "35 \<le> load s" for s
  proof -
    have "0 < ?inc s" using that(4,5,2,3) by (rule bearing_increment_pos)
    then show ?thesis using that(1) unfolding update_degradation_fields by simp
  qed
  have eq: "(vibration s * 0.5 + load s / 100 * 0.1) / wear_resistance m * 0.001 *
            min 2.0 (1.0 + age m / 10) = ?inc s"
    by simp
  have first: "bearing_wear m < 1.0 \<and> 0 < wear_resistance m \<and> - 10 < age m \<and>
    0.02 \<le> vibration s \<and> 35 \<le> load s \<longrightarrow>
      0 < ?inc s \<and>
      bearing_wear (update_degradation m s dic) = min 1.0 (bearing_wear m + ?inc s) \<and>
      bearing_wear m < bearing_wear (update_degradation m s dic)"
    using step [of s] bearing_increment_pos [of "vibration s" "load s" "wear_resistance m" "age m"]
      update_degradation_fields(1) [of m s dic]
    by blast
  have second: "bearing_wear m < 1.0 \<and> created_in_range m \<longrightarrow>
      bearing_wear m < bearing_wear (fst (fst (daily_operation cfg c dic d (m, st))))"
  proof
    assume a: "bearing_wear m < 1.0 \<and> created_in_range m"
    let ?s = "calculate_sensor_readings m dic
           (generate_load_pattern m ((c - 1) * DAYS_PER_CYCLE cfg + dic) dic (load_d d))
           (sensor_d d)"
    obtain b k where e: "fst (fst (daily_operation cfg c dic d (m, st))) =
       (update_degradation m ?s dic)\<lparr>intermittent_fault_active := Some b, previous_failures := k\<rparr>"
      using daily_operation_machine by blast
    have "0 < wear_resistance m" "- 10 < age m"
      using a by (simp_all add: created_in_range_def)
    then have "bearing_wear m < bearing_wear (update_degradation m ?s dic)"
      using a calculate_sensor_readings_bounds(3) sensed_load_bounds(1) by (intro step) blast+
    then show "bearing_wear m < bearing_wear (fst (fst (daily_operation cfg c dic d (m, st))))"
      unfolding e by simp
  qed
  show ?thesis unfolding eq using first second by blast
qed

text \<open>
  Claim C10, at a concrete input: the new nominal machine and readings with a vibration of
  0.1 and a load of 60; the update raises the bearing wear from 0 to 0.000154.
\<close>

theorem bearing_wear_strictly_increases_witness:
  "bearing_wear nominal_machine < 1.0 \<and> 0 < wear_resistance nominal_machine \<and>
   - 10 < age nominal_machine \<and> 0.02 \<le> vibration nominal_readings \<and>
   35 \<le> load nominal_readings \<and> created_in_range nominal_machine \<and>
   bearing_wear (update_degradation nominal_machine nominal_readings 1) = 0.000154 \<and>
   bearing_wear nominal_machine < bearing_wear (update_degradation nominal_machine nominal_readings 1) \<and>
   bearing_wear nominal_machine <
     bearing_wear (fst (fst (daily_operation default_config 1 1 nominal_day_draws
                               (nominal_machine, failed_state))))"
proof -
  have h: "bearing_wear nominal_machine < 1.0" "0 < wear_resistance nominal_machine"
    "- 10 < age nominal_machine" "0.02 \<le> vibration nominal_readings"
    "35 \<le> load nominal_readings"
    by (simp_all add: nominal_machine_def MachineBehavior_def nominal_init_draws_def
        nominal_readings_def)
  have v: "bearing_wear (update_degradation nominal_machine nominal_readings 1) = 0.000154"
    by (simp add: update_degradation_fields nominal_machine_def MachineBehavior_def
        nominal_init_draws_def nominal_readings_def)
  show ?thesis
    using h v nominal_machine_ok(1)
      bearing_wear_strictly_increases [of nominal_machine nominal_readings 1 default_config 1
        nominal_day_draws failed_state]
    by blast
qed

end
